theory Spec2Isabelle
  imports Main "HOL-Library.Sublist"
begin

section \<open>The root key guard of the API (apps/api/src/pkg/auth/root\_key.ts)\<close>

subsection \<open>String replacement\<close>

text \<open>
  \<^verbatim>\<open>s.replace(pat, rep)\<close> with a string pattern: the leftmost occurrence of
  \<open>pat\<close> in \<open>s\<close> is replaced by \<open>rep\<close>, later occurrences stay, and a string without
  an occurrence is returned as it is. The empty pattern occurs at position 0. The only
  replacement text the guard uses is the empty string, so the dollar patterns of a
  replacement text are not modelled.
\<close>

fun replace :: "string \<Rightarrow> string \<Rightarrow> string \<Rightarrow> string" where
  "replace [] pat rep = (if pat = [] then rep else [])"
| "replace (x # xs) pat rep =
     (if prefix pat (x # xs) then rep @ drop (length pat) (x # xs)
      else x # replace xs pat rep)"

subsection \<open>Data\<close>

text \<open>
  An error object carries a message; \<open>UnkeyApiError\<close> adds the code. The errors of the
  key service are error objects of any shape.
\<close>

record Error =
  message :: string

record UnkeyApiError = Error +
  code :: string

text \<open>
  What the key service says about a key. The guard reads \<open>valid\<close> and \<open>isRootKey\<close>;
  whatever else the service reports is the extension part of the record.
\<close>

record VerifyKeyResult =
  valid :: bool
  isRootKey :: bool

text \<open>The service answers with either an error or a value.\<close>

datatype ('e, 'v) Result = Err 'e | Ok 'v

text \<open>
  The request context. The guard reads \<open>c.req.header\<close>; everything else a context holds
  is the extension part of the record.
\<close>

record Context =
  header :: "string \<Rightarrow> string option"

text \<open>
  How an awaited call ends: the promise resolves to a value, or it rejects (or the call
  throws before there is a promise) with whatever was thrown.
\<close>

datatype ('x, 'r) settled = Rejected 'x | Resolved 'r

text \<open>
  \<open>keyService.verifyKey\<close> is not part of the guard: it is a parameter here. It gets the
  context and the key, may read and change a state of its own, and either resolves to a
  \<open>Result\<close>, as its signature declares, or rejects.
\<close>

type_synonym ('c, 's, 'x, 'e, 'v) verifier =
  "'c Context_scheme \<Rightarrow> string \<Rightarrow> 's \<Rightarrow>
     ('x, ('e Error_scheme, 'v VerifyKeyResult_scheme) Result) settled \<times> 's"

text \<open>
  The world outside the guard: the state of the key service, and the keys it has been
  asked to verify, oldest first.
\<close>

record 's world =
  service :: 's
  calls :: "string list"

definition verifyKey ::
  "('c, 's, 'x, 'e, 'v) verifier \<Rightarrow> 'c Context_scheme \<Rightarrow> string \<Rightarrow> 's world \<Rightarrow>
     ('x, ('e Error_scheme, 'v VerifyKeyResult_scheme) Result) settled \<times> 's world" where
  "verifyKey svc c k w =
     (case svc c k (service w) of
        (r, s') \<Rightarrow> (r, \<lparr>service = s', calls = calls w @ [k]\<rparr>))"

subsection \<open>The guard\<close>

text \<open>
  \<^verbatim>\<open>c.req.header("authorization")?.replace("Bearer ", "")\<close>: undefined when the
  header is, the header with the replacement done otherwise.
\<close>

definition authorization :: "'c Context_scheme \<Rightarrow> string option" where
  "authorization c =
     (case header c ''authorization'' of
        None \<Rightarrow> None
      | Some h \<Rightarrow> Some (replace h ''Bearer '' ''''))"

text \<open>\<^verbatim>\<open>!authorization\<close>: true of undefined and of the empty string.\<close>

fun falsy :: "string option \<Rightarrow> bool" where
  "falsy None = True"
| "falsy (Some a) = (a = [])"

text \<open>
  What leaves the guard as an exception: an \<open>UnkeyApiError\<close> the guard throws
  itself, or, as the await of \<open>verifyKey\<close> stands in no try block, whatever a
  rejecting \<open>verifyKey\<close> threw, as it is.
\<close>

datatype 'x thrown = Raw 'x | Api UnkeyApiError

text \<open>
  What is thrown is the left summand of the outcome, the returned value the right one.
  The world comes back as the guard leaves it.
\<close>

definition rootKeyAuth ::
  "('c, 's, 'x, 'e, 'v) verifier \<Rightarrow> 'c Context_scheme \<Rightarrow> 's world \<Rightarrow>
     ('x thrown + 'v VerifyKeyResult_scheme) \<times> 's world" where
  "rootKeyAuth svc c w =
     (if falsy (authorization c)
      then (Inl (Api \<lparr>message = ''key required'', code = ''UNAUTHORIZED''\<rparr>), w)
      else
        (case verifyKey svc c (the (authorization c)) w of
           (Rejected x, w') \<Rightarrow> (Inl (Raw x), w')
         | (Resolved (Err e), w') \<Rightarrow>
             (Inl (Api \<lparr>message = message e, code = ''INTERNAL_SERVER_ERROR''\<rparr>), w')
         | (Resolved (Ok v), w') \<Rightarrow>
             if \<not> valid v
             then (Inl (Api \<lparr>message = ''the root key is not valid'',
                              code = ''UNAUTHORIZED''\<rparr>), w')
             else if \<not> isRootKey v
             then (Inl (Api \<lparr>message = ''root key required'', code = ''UNAUTHORIZED''\<rparr>), w')
             else (Inr v, w')))"

subsection \<open>A request and a key service to run the guard on\<close>

definition request :: "string option \<Rightarrow> Context" where
  "request h = \<lparr>header = (\<lambda>n. if n = ''authorization'' then h else None)\<rparr>"

text \<open>
  A key service that knows one root key, one ordinary key and one revoked root key,
  answers the key \<open>down\<close> with an error, rejects on the key \<open>timeout\<close>, and counts
  the verifications it has done. Its values carry the owner of the key besides the two
  flags.
\<close>

definition demo_service :: "('c, nat, Error, unit, string) verifier" where
  "demo_service c k n =
     (if k = ''abc123''
        then Resolved (Ok (VerifyKeyResult.extend \<lparr>valid = True, isRootKey = True\<rparr> ''ws_1''))
      else if k = ''user-key''
        then Resolved (Ok (VerifyKeyResult.extend \<lparr>valid = True, isRootKey = False\<rparr> ''ws_2''))
      else if k = ''revoked-root''
        then Resolved (Ok (VerifyKeyResult.extend \<lparr>valid = False, isRootKey = True\<rparr> ''ws_1''))
      else if k = ''down''
        then Resolved (Err \<lparr>message = ''fetch failed''\<rparr>)
      else if k = ''timeout''
        then Rejected \<lparr>message = ''connection reset''\<rparr>
      else Resolved (Ok (VerifyKeyResult.extend \<lparr>valid = False, isRootKey = False\<rparr> '''')),
      Suc n)"

definition world0 :: "nat world" where
  "world0 = \<lparr>service = 0, calls = []\<rparr>"

section \<open>Properties of the guard\<close>

text \<open>
  C1. A request without an authorization header is refused with the code UNAUTHORIZED and
  the message "key required", and the key service is not called: the world, with the
  state of the service and the list of its calls, is as it was.
\<close>

theorem C1_missing_header:
  assumes "header c ''authorization'' = None"
  shows "rootKeyAuth svc c w =
           (Inl (Api \<lparr>message = ''key required'', code = ''UNAUTHORIZED''\<rparr>), w)"
  using assms by (simp add: rootKeyAuth_def authorization_def)

theorem C1_missing_header_witness:
  "header (request None) ''authorization'' = None \<and>
   rootKeyAuth demo_service (request None) world0 =
     (Inl (Api \<lparr>message = ''key required'', code = ''UNAUTHORIZED''\<rparr>), world0) \<and>
   length (calls (snd (rootKeyAuth demo_service (request None) world0))) = 0"
proof -
  have h: "header (request None) ''authorization'' = None"
    by (simp add: request_def)
  show ?thesis
    using h C1_missing_header [OF h, of demo_service world0]
    by (simp add: world0_def)
qed

text \<open>
  C2. The specification has a header which is empty once "Bearer " is taken out pass
  its empty credential to the key service. The guard tests the credential after the
  replacement, and the empty string is falsy: for the header "Bearer " it stops with
  "key required" and the service sees no call.
\<close>

theorem C2_empty_credential_counterexample:
  "header (request (Some ''Bearer '')) ''authorization'' = Some ''Bearer '' \<and>
   replace ''Bearer '' ''Bearer '' '''' = '''' \<and>
   fst (rootKeyAuth demo_service (request (Some ''Bearer '')) world0) =
     Inl (Api \<lparr>message = ''key required'', code = ''UNAUTHORIZED''\<rparr>) \<and>
   calls (snd (rootKeyAuth demo_service (request (Some ''Bearer '')) world0)) \<noteq>
     calls world0 @ ['''']"
  by (simp add: rootKeyAuth_def authorization_def request_def world0_def)

text \<open>
  C2, as the guard has it. A request whose authorization header is present, and empty
  once the first "Bearer " is taken out, is refused like a request without the header:
  UNAUTHORIZED, "key required", and the key service is not called.
\<close>

theorem C2_empty_credential_refused:
  assumes "header c ''authorization'' = Some h"
    and "replace h ''Bearer '' '''' = []"
  shows "rootKeyAuth svc c w =
           (Inl (Api \<lparr>message = ''key required'', code = ''UNAUTHORIZED''\<rparr>), w)"
  using assms by (simp add: rootKeyAuth_def authorization_def)

theorem C2_empty_credential_refused_witness:
  "rootKeyAuth demo_service (request (Some ''Bearer '')) world0 =
     (Inl (Api \<lparr>message = ''key required'', code = ''UNAUTHORIZED''\<rparr>), world0)"
proof -
  have h: "header (request (Some ''Bearer '')) ''authorization'' = Some ''Bearer ''"
    by (simp add: request_def)
  have r: "replace ''Bearer '' ''Bearer '' '''' = []"
    by simp
  show ?thesis
    using C2_empty_credential_refused [where svc = demo_service and w = world0, OF h r]
    by simp
qed

text \<open>
  C3. When the credential is not empty and the call of the key service returns an error, the
  guard fails with the code INTERNAL\_SERVER\_ERROR and the message of that error, letter
  for letter. An error answer holds no verification value, so neither \<open>valid\<close> nor
  \<open>isRootKey\<close> is looked at. The service has been called once, with the credential.
\<close>

theorem C3_service_error:
  assumes "authorization c = Some k"
    and "k \<noteq> []"
    and "svc c k (service w) = (Resolved (Err e), s')"
  shows "rootKeyAuth svc c w =
           (Inl (Api \<lparr>message = message e, code = ''INTERNAL_SERVER_ERROR''\<rparr>),
            \<lparr>service = s', calls = calls w @ [k]\<rparr>)"
  using assms by (simp add: rootKeyAuth_def verifyKey_def)

theorem C3_service_error_witness:
  "rootKeyAuth demo_service (request (Some ''Bearer down'')) world0 =
     (Inl (Api \<lparr>message = ''fetch failed'', code = ''INTERNAL_SERVER_ERROR''\<rparr>),
      \<lparr>service = Suc 0, calls = [''down'']\<rparr>)"
proof -
  have a: "authorization (request (Some ''Bearer down'')) = Some ''down''"
    by (simp add: authorization_def request_def)
  have n: "''down'' \<noteq> []"
    by simp
  have s: "demo_service (request (Some ''Bearer down'')) ''down'' (service world0) =
             (Resolved (Err \<lparr>message = ''fetch failed''\<rparr>), Suc 0)"
    by (simp add: demo_service_def world0_def)
  show ?thesis
    using C3_service_error [where svc = demo_service and w = world0, OF a n s]
    by (simp add: world0_def)
qed

text \<open>
  C4. When the key service answers with a value whose \<open>valid\<close> is false, the guard
  fails with the code UNAUTHORIZED and the message "the root key is not valid", whatever
  \<open>isRootKey\<close> says.
\<close>

theorem C4_invalid_key:
  assumes "authorization c = Some k"
    and "k \<noteq> []"
    and "svc c k (service w) = (Resolved (Ok v), s')"
    and "\<not> valid v"
  shows "fst (rootKeyAuth svc c w) =
           Inl (Api \<lparr>message = ''the root key is not valid'', code = ''UNAUTHORIZED''\<rparr>)"
  using assms by (simp add: rootKeyAuth_def verifyKey_def)

theorem C4_invalid_key_witness:
  "fst (rootKeyAuth demo_service (request (Some ''Bearer bad'')) world0) =
     Inl (Api \<lparr>message = ''the root key is not valid'', code = ''UNAUTHORIZED''\<rparr>) \<and>
   fst (rootKeyAuth demo_service (request (Some ''Bearer revoked-root'')) world0) =
     Inl (Api \<lparr>message = ''the root key is not valid'', code = ''UNAUTHORIZED''\<rparr>)"
proof -
  let ?v = "VerifyKeyResult.extend \<lparr>valid = False, isRootKey = False\<rparr> ''''"
  let ?u = "VerifyKeyResult.extend \<lparr>valid = False, isRootKey = True\<rparr> ''ws_1''"
  have a: "authorization (request (Some ''Bearer bad'')) = Some ''bad''"
    by (simp add: authorization_def request_def)
  have b: "authorization (request (Some ''Bearer revoked-root'')) = Some ''revoked-root''"
    by (simp add: authorization_def request_def)
  have s: "demo_service (request (Some ''Bearer bad'')) ''bad'' (service world0) =
             (Resolved (Ok ?v), Suc 0)"
    by (simp add: demo_service_def world0_def)
  have t: "demo_service (request (Some ''Bearer revoked-root'')) ''revoked-root''
             (service world0) = (Resolved (Ok ?u), Suc 0)"
    by (simp add: demo_service_def world0_def)
  have "\<not> valid ?v" and "\<not> valid ?u" and "\<not> isRootKey ?v" and "isRootKey ?u"
    by (simp_all add: VerifyKeyResult.defs)
  then show ?thesis
    using C4_invalid_key [where svc = demo_service and w = world0, OF a _ s]
      C4_invalid_key [where svc = demo_service and w = world0, OF b _ t]
    by simp
qed

text \<open>
  C5. When the key service answers with a value that is valid and not a root key, the
  guard fails with the code UNAUTHORIZED and the message "root key required", which is
  not the message given for an invalid key.
\<close>

theorem C5_not_a_root_key:
  assumes "authorization c = Some k"
    and "k \<noteq> []"
    and "svc c k (service w) = (Resolved (Ok v), s')"
    and "valid v"
    and "\<not> isRootKey v"
  shows "fst (rootKeyAuth svc c w) =
           Inl (Api \<lparr>message = ''root key required'', code = ''UNAUTHORIZED''\<rparr>) \<and>
         fst (rootKeyAuth svc c w) \<noteq>
           Inl (Api \<lparr>message = ''the root key is not valid'', code = ''UNAUTHORIZED''\<rparr>)"
  using assms by (simp add: rootKeyAuth_def verifyKey_def)

theorem C5_not_a_root_key_witness:
  "fst (rootKeyAuth demo_service (request (Some ''Bearer user-key'')) world0) =
     Inl (Api \<lparr>message = ''root key required'', code = ''UNAUTHORIZED''\<rparr>)"
proof -
  let ?v = "VerifyKeyResult.extend \<lparr>valid = True, isRootKey = False\<rparr> ''ws_2''"
  have a: "authorization (request (Some ''Bearer user-key'')) = Some ''user-key''"
    by (simp add: authorization_def request_def)
  have s: "demo_service (request (Some ''Bearer user-key'')) ''user-key'' (service world0) =
             (Resolved (Ok ?v), Suc 0)"
    by (simp add: demo_service_def world0_def)
  have "valid ?v" and "\<not> isRootKey ?v"
    by (simp_all add: VerifyKeyResult.defs)
  then show ?thesis
    using C5_not_a_root_key [where svc = demo_service and w = world0, OF a _ s]
    by simp
qed

text \<open>
  C6. When the key service answers with a value that is valid and a root key, the guard
  succeeds and returns that very value: the two flags and every further field of it.
\<close>

theorem C6_root_key_accepted:
  assumes "authorization c = Some k"
    and "k \<noteq> []"
    and "svc c k (service w) = (Resolved (Ok v), s')"
    and "valid v"
    and "isRootKey v"
  shows "rootKeyAuth svc c w = (Inr v, \<lparr>service = s', calls = calls w @ [k]\<rparr>)"
  using assms by (simp add: rootKeyAuth_def verifyKey_def)

theorem C6_root_key_accepted_witness:
  "rootKeyAuth demo_service (request (Some ''Bearer abc123'')) world0 =
     (Inr \<lparr>valid = True, isRootKey = True, \<dots> = ''ws_1''\<rparr>,
      \<lparr>service = Suc 0, calls = [''abc123'']\<rparr>)"
proof -
  let ?v = "VerifyKeyResult.extend \<lparr>valid = True, isRootKey = True\<rparr> ''ws_1''"
  have a: "authorization (request (Some ''Bearer abc123'')) = Some ''abc123''"
    by (simp add: authorization_def request_def)
  have s: "demo_service (request (Some ''Bearer abc123'')) ''abc123'' (service world0) =
             (Resolved (Ok ?v), Suc 0)"
    by (simp add: demo_service_def world0_def)
  have "valid ?v" and "isRootKey ?v"
    by (simp_all add: VerifyKeyResult.defs)
  then show ?thesis
    using C6_root_key_accepted [where svc = demo_service and w = world0, OF a _ s]
    by (simp add: world0_def VerifyKeyResult.defs)
qed

text \<open>
  C7. The specification has every invocation call the key service exactly once. A request
  without the header is turned away before the call: the service has then been called
  zero times.
\<close>

theorem C7_call_counterexample:
  "length (calls (snd (rootKeyAuth demo_service (request None) world0))) \<noteq>
     length (calls world0) + 1"
  by (simp add: rootKeyAuth_def authorization_def request_def world0_def)

text \<open>
  C7, as the guard has it. An invocation calls the key service at most once and never a
  second time: once, with the credential, when the authorization header is present and
  not empty once the first "Bearer " is taken out, and not at all otherwise.
\<close>

theorem C7_at_most_one_call:
  "calls (snd (rootKeyAuth svc c w)) =
     calls w @
       (case header c ''authorization'' of
          None \<Rightarrow> []
        | Some h \<Rightarrow>
            if replace h ''Bearer '' '''' = [] then [] else [replace h ''Bearer '' ''''])"
  by (simp add: rootKeyAuth_def verifyKey_def authorization_def
      split: option.splits prod.splits settled.splits Result.splits)

theorem C7_at_most_one_call_witness:
  "calls (snd (rootKeyAuth demo_service (request (Some ''Bearer abc123'')) world0)) =
     [''abc123''] \<and>
   calls (snd (rootKeyAuth demo_service (request (Some ''Bearer '')) world0)) = [] \<and>
   calls (snd (rootKeyAuth demo_service (request None) world0)) = []"
  using C7_at_most_one_call [of demo_service "request (Some ''Bearer abc123'')" world0]
    C7_at_most_one_call [of demo_service "request (Some ''Bearer '')" world0]
    C7_at_most_one_call [of demo_service "request None" world0]
  by (simp add: request_def world0_def)

text \<open>
  C8. The outcome is a function of the authorization header and of the answer of the key
  service to the credential. Two invocations, on contexts that agree on that header and
  may differ in everything else, with key services (and states of them) that answer the
  credential alike, end in the same outcome: the same value, the same code and message,
  or the same thing thrown by a rejecting call.
\<close>

theorem C8_deterministic:
  assumes "header c1 ''authorization'' = header c2 ''authorization''"
    and "\<And>k. authorization c1 = Some k \<Longrightarrow> k \<noteq> [] \<Longrightarrow>
           fst (svc1 c1 k (service w1)) = fst (svc2 c2 k (service w2))"
  shows "fst (rootKeyAuth svc1 c1 w1) = fst (rootKeyAuth svc2 c2 w2)"
proof -
  have same: "authorization c2 = authorization c1"
    using assms(1) by (simp add: authorization_def)
  show ?thesis
  proof (cases "falsy (authorization c1)")
    case True
    then show ?thesis by (simp add: rootKeyAuth_def same)
  next
    case False
    then obtain k where k: "authorization c1 = Some k"
      by (cases "authorization c1") auto
    obtain r1 s1 where e1: "svc1 c1 k (service w1) = (r1, s1)"
      by (cases "svc1 c1 k (service w1)")
    obtain r2 s2 where e2: "svc2 c2 k (service w2) = (r2, s2)"
      by (cases "svc2 c2 k (service w2)")
    from False k have "k \<noteq> []"
      by simp
    from assms(2) [OF k this] e1 e2 have "r2 = r1"
      by simp
    with False k e1 e2 show ?thesis
      by (simp add: rootKeyAuth_def verifyKey_def same split: settled.splits Result.splits)
  qed
qed

theorem C8_deterministic_witness:
  "fst (rootKeyAuth demo_service (request (Some ''Bearer user-key'')) world0) =
   fst (rootKeyAuth demo_service
          (Context.extend (request (Some ''Bearer user-key'')) ''POST /v1/keys.createKey'')
          \<lparr>service = 41, calls = [''abc123'']\<rparr>)"
proof -
  let ?c1 = "request (Some ''Bearer user-key'')"
  let ?c2 = "Context.extend ?c1 ''POST /v1/keys.createKey''"
  let ?w2 = "\<lparr>service = 41::nat, calls = [''abc123'']\<rparr>"
  have h: "header ?c1 ''authorization'' = header ?c2 ''authorization''"
    by (simp add: request_def Context.defs)
  have s: "\<And>k. authorization ?c1 = Some k \<Longrightarrow> k \<noteq> [] \<Longrightarrow>
             fst (demo_service ?c1 k (service world0)) = fst (demo_service ?c2 k (service ?w2))"
    by (simp add: demo_service_def)
  show ?thesis
    using C8_deterministic [where ?svc1.0 = demo_service and ?svc2.0 = demo_service
        and ?w1.0 = world0 and ?w2.0 = ?w2, OF h s]
    by simp
qed

text \<open>
  C9. The specification has the outcome always be a typed error, with the code
  UNAUTHORIZED or INTERNAL\_SERVER\_ERROR, or a value that is valid and a root key. The
  await of \<open>verifyKey\<close> stands in no try block: when the call rejects, what it
  threw leaves the guard as it is, an error without a code.
\<close>

theorem C9_rejection_counterexample:
  "fst (rootKeyAuth demo_service (request (Some ''Bearer timeout'')) world0) =
     Inl (Raw \<lparr>message = ''connection reset''\<rparr>) \<and>
   fst (rootKeyAuth demo_service (request (Some ''Bearer timeout'')) world0) \<noteq>
     Inl (Api \<lparr>message = ''connection reset'', code = ''INTERNAL_SERVER_ERROR''\<rparr>)"
  by (simp add: rootKeyAuth_def verifyKey_def authorization_def request_def
      demo_service_def world0_def)

text \<open>
  C9, as the guard has it. The outcome is one of three things: an \<open>UnkeyApiError\<close>
  whose code is UNAUTHORIZED or INTERNAL\_SERVER\_ERROR; a value that is valid and a root
  key; or what the call of the key service threw, and that only when the service was
  called and its call rejected. So whenever the call resolves the outcome is one of the
  first two, and no header and no behaviour of the key service make the guard return a
  value that is invalid or not a root key.
\<close>

theorem C9_outcome_shapes:
  "(case fst (rootKeyAuth svc c w) of
      Inl (Raw x) \<Rightarrow>
        \<not> falsy (authorization c) \<and>
        fst (svc c (the (authorization c)) (service w)) = Rejected x
    | Inl (Api e) \<Rightarrow> code e = ''UNAUTHORIZED'' \<or> code e = ''INTERNAL_SERVER_ERROR''
    | Inr v \<Rightarrow> valid v \<and> isRootKey v)"
  by (simp add: rootKeyAuth_def verifyKey_def
      split: prod.splits settled.splits Result.splits)

theorem C9_outcome_shapes_witness:
  "fst (rootKeyAuth demo_service (request (Some ''Bearer abc123'')) world0) =
     Inr \<lparr>valid = True, isRootKey = True, \<dots> = ''ws_1''\<rparr> \<and>
   valid (\<lparr>valid = True, isRootKey = True, \<dots> = ''ws_1''\<rparr>) \<and>
   isRootKey (\<lparr>valid = True, isRootKey = True, \<dots> = ''ws_1''\<rparr>) \<and>
   fst (rootKeyAuth demo_service (request (Some ''Bearer down'')) world0) =
     Inl (Api \<lparr>message = ''fetch failed'', code = ''INTERNAL_SERVER_ERROR''\<rparr>) \<and>
   fst (rootKeyAuth demo_service (request (Some ''Bearer timeout'')) world0) =
     Inl (Raw \<lparr>message = ''connection reset''\<rparr>) \<and>
   fst (demo_service (request (Some ''Bearer timeout'')) ''timeout'' (service world0)) =
     Rejected \<lparr>message = ''connection reset''\<rparr>"
  using C9_outcome_shapes [where svc = demo_service and w = world0
      and c = "request (Some ''Bearer abc123'')"]
    C9_outcome_shapes [where svc = demo_service and w = world0
      and c = "request (Some ''Bearer down'')"]
    C9_outcome_shapes [where svc = demo_service and w = world0
      and c = "request (Some ''Bearer timeout'')"]
  by (simp add: rootKeyAuth_def verifyKey_def authorization_def request_def
      demo_service_def world0_def VerifyKeyResult.defs)

subsection \<open>What the replacement does to a header\<close>

lemma replace_absent: "\<not> sublist pat s \<Longrightarrow> replace s pat rep = s"
  by (induction s) (auto simp: sublist_Cons_right)

lemma replace_first_occurrence:
  "(\<forall>i<length pre. \<not> prefix pat (drop i (pre @ pat @ post))) \<Longrightarrow>
     replace (pre @ pat @ post) pat rep = pre @ rep @ post"
proof (induction pre)
  case Nil
  show ?case
  proof (cases pat)
    case Nil
    then show ?thesis by (cases post) simp_all
  next
    case (Cons x xs)
    then show ?thesis by simp
  qed
next
  case (Cons a pre)
  have np: "\<not> prefix pat (a # pre @ pat @ post)"
    using Cons.prems by force
  have "\<forall>i<length pre. \<not> prefix pat (drop i (pre @ pat @ post))"
    using Cons.prems by force
  then have "replace (pre @ pat @ post) pat rep = pre @ rep @ post"
    by (rule Cons.IH)
  with np show ?case by simp
qed

text \<open>
  C10. The specification has the rest of every header holding "Bearer " forwarded as
  the credential. The header that is "Bearer " and nothing else holds it, the rest is the
  empty string, and the empty string is not forwarded: the service sees no call.
\<close>

theorem C10_empty_remainder_counterexample:
  "header (request (Some ''Bearer '')) ''authorization'' = Some ([] @ ''Bearer '' @ []) \<and>
   calls (snd (rootKeyAuth demo_service (request (Some ''Bearer '')) world0)) = [] \<and>
   calls (snd (rootKeyAuth demo_service (request (Some ''Bearer '')) world0)) \<noteq> [[] @ []]"
  by (simp add: rootKeyAuth_def authorization_def request_def world0_def)

text \<open>
  C10, as the guard has it. When the header is \<open>pre\<close>, then "Bearer ", then
  \<open>post\<close>, and no occurrence of "Bearer " starts earlier (inside \<open>pre\<close>), the
  guard takes out exactly that occurrence, wherever it is, and forwards \<open>pre\<close>
  followed by \<open>post\<close> as the credential, provided that is not empty. A header that
  is not empty and holds no "Bearer " is forwarded as it is.
\<close>

theorem C10_first_occurrence_removed:
  assumes "header c ''authorization'' = Some h"
  shows "(h = pre @ ''Bearer '' @ post \<and>
          (\<forall>i<length pre. \<not> prefix ''Bearer '' (drop i h)) \<and> pre @ post \<noteq> [] \<longrightarrow>
            calls (snd (rootKeyAuth svc c w)) = calls w @ [pre @ post]) \<and>
         (\<not> sublist ''Bearer '' h \<and> h \<noteq> [] \<longrightarrow>
            calls (snd (rootKeyAuth svc c w)) = calls w @ [h])"
proof (intro conjI impI)
  assume a: "h = pre @ ''Bearer '' @ post \<and>
    (\<forall>i<length pre. \<not> prefix ''Bearer '' (drop i h)) \<and> pre @ post \<noteq> []"
  then have "replace h ''Bearer '' '''' = pre @ '''' @ post"
    using replace_first_occurrence [of pre "''Bearer ''" post "''''"] by blast
  with a assms show "calls (snd (rootKeyAuth svc c w)) = calls w @ [pre @ post]"
    by (simp add: rootKeyAuth_def verifyKey_def authorization_def
        split: prod.splits settled.splits Result.splits)
next
  assume a: "\<not> sublist ''Bearer '' h \<and> h \<noteq> []"
  then have "replace h ''Bearer '' '''' = h"
    by (simp add: replace_absent)
  with a assms show "calls (snd (rootKeyAuth svc c w)) = calls w @ [h]"
    by (simp add: rootKeyAuth_def verifyKey_def authorization_def
        split: prod.splits settled.splits Result.splits)
qed

theorem C10_first_occurrence_removed_witness:
  "calls (snd (rootKeyAuth demo_service (request (Some ''xBearer y'')) world0)) = [''xy''] \<and>
   calls (snd (rootKeyAuth demo_service (request (Some ''Bearer Bearer k'')) world0)) =
     [''Bearer k''] \<and>
   calls (snd (rootKeyAuth demo_service (request (Some ''bearer k'')) world0)) =
     [''bearer k'']"
proof -
  have h1: "header (request (Some ''xBearer y'')) ''authorization'' = Some ''xBearer y''"
    and h2: "header (request (Some ''Bearer Bearer k'')) ''authorization'' =
               Some ''Bearer Bearer k''"
    and h3: "header (request (Some ''bearer k'')) ''authorization'' = Some ''bearer k''"
    by (simp_all add: request_def)
  have n: "\<not> sublist ''Bearer '' ''bearer k''"
    by (simp add: sublist_code)
  show ?thesis
    using C10_first_occurrence_removed [where svc = demo_service and w = world0
        and pre = "''x''" and post = "''y''", OF h1]
      C10_first_occurrence_removed [where svc = demo_service and w = world0
        and pre = "[]" and post = "''Bearer k''", OF h2]
      C10_first_occurrence_removed [where svc = demo_service and w = world0, OF h3] n
    by (simp add: world0_def)
qed

end
